theory Spec2Isabelle
  imports Main "HOL-Library.Word"
begin

section \<open>The custom OpenAI client of pec-course-monitor\<close>

text \<open>
  A shallow embedding of \<^verbatim>\<open>src/llm_clients/customOpenAI_client.ts\<close>: the class
  \<^verbatim>\<open>CustomOpenAIClient\<close> with its one method \<^verbatim>\<open>createChatCompletion\<close>, which
  formats the caller's messages for the provider, sends one non-streaming request and,
  when a response model is asked for, parses and validates the answer, calling itself
  again with one retry less when validation fails.
\<close>

subsection \<open>JSON values\<close>

text \<open>
  The values that \<^verbatim>\<open>JSON.parse\<close> produces and that travel as \<^verbatim>\<open>data\<close>, as tool
  parameters and as the passthrough options of a request.
\<close>

datatype json =
    JNull
  | JBool bool
  | JNumber int
  | JString string
  | JArray "json list"
  | JObject "(string \<times> json) list"

subsection \<open>A reader for JSON texts\<close>

text \<open>
  The client takes \<^verbatim>\<open>JSON.parse\<close> as a parameter (see \<open>createChatCompletion\<close>), so
  what is proved of it holds for every parser. To run the client on concrete payloads,
  \<open>json_read\<close> reads the part of the JSON grammar those payloads use: white space,
  the three literals, integers, strings without escape sequences, arrays and objects.
  It returns \<open>None\<close> where \<^verbatim>\<open>JSON.parse\<close> throws a \<^verbatim>\<open>SyntaxError\<close>, and also on
  the texts outside this part (fractions, exponents, escapes). The first argument of
  \<open>read_value\<close> bounds the nesting; \<open>json_read\<close> starts it one above the
  length of the text.
\<close>

definition is_ws :: "char \<Rightarrow> bool" where
  "is_ws c \<longleftrightarrow> c = CHR '' '' \<or> c = CHR 0x09 \<or> c = CHR 0x0A \<or> c = CHR 0x0D"

definition is_digit :: "char \<Rightarrow> bool" where
  "is_digit c \<longleftrightarrow> (48 :: nat) \<le> of_char c \<and> of_char c \<le> (57 :: nat)"

fun skip_ws :: "string \<Rightarrow> string" where
  "skip_ws [] = []"
| "skip_ws (c # cs) = (if is_ws c then skip_ws cs else c # cs)"

fun strip_prefix :: "string \<Rightarrow> string \<Rightarrow> string option" where
  "strip_prefix [] s = Some s"
| "strip_prefix (p # ps) [] = None"
| "strip_prefix (p # ps) (c # cs) = (if p = c then strip_prefix ps cs else None)"

fun read_string :: "string \<Rightarrow> (string \<times> string) option" where
  "read_string [] = None"
| "read_string (c # cs) =
     (if c = CHR 0x22 then Some ([], cs)
      else if c = CHR 0x5C \<or> of_char c < (32 :: nat) then None
      else (case read_string cs of
              None \<Rightarrow> None
            | Some (t, r) \<Rightarrow> Some (c # t, r)))"

fun digits_value :: "string \<Rightarrow> nat \<Rightarrow> nat" where
  "digits_value [] acc = acc"
| "digits_value (c # cs) acc = digits_value cs (10 * acc + (of_char c - (48::nat)))"

definition read_number :: "string \<Rightarrow> (int \<times> string) option" where
  "read_number s =
     (let neg = (case s of [] \<Rightarrow> False | c # cs \<Rightarrow> c = CHR ''-'');
          body = (if neg then tl s else s);
          ds = takeWhile is_digit body;
          r = dropWhile is_digit body
      in if ds = [] \<or> (length ds > 1 \<and> hd ds = CHR ''0'') then None
         else if r \<noteq> [] \<and> (hd r = CHR ''.'' \<or> hd r = CHR ''e'' \<or> hd r = CHR ''E'') then None
         else Some ((if neg then - int (digits_value ds 0) else int (digits_value ds 0)), r))"

fun read_value :: "nat \<Rightarrow> string \<Rightarrow> (json \<times> string) option"
and read_elements :: "nat \<Rightarrow> string \<Rightarrow> (json list \<times> string) option"
and read_members :: "nat \<Rightarrow> string \<Rightarrow> ((string \<times> json) list \<times> string) option"
where
  "read_value 0 s = None"
| "read_value (Suc n) s =
     (case skip_ws s of
        [] \<Rightarrow> None
      | c # cs \<Rightarrow>
          if c = CHR 0x22 then
            (case read_string cs of None \<Rightarrow> None | Some (t, r) \<Rightarrow> Some (JString t, r))
          else if c = CHR ''['' then
            (case strip_prefix '']'' (skip_ws cs) of
               Some r \<Rightarrow> Some (JArray [], r)
             | None \<Rightarrow>
                 (case read_elements n cs of None \<Rightarrow> None | Some (vs, r) \<Rightarrow> Some (JArray vs, r)))
          else if c = CHR ''{'' then
            (case strip_prefix ''}'' (skip_ws cs) of
               Some r \<Rightarrow> Some (JObject [], r)
             | None \<Rightarrow>
                 (case read_members n cs of None \<Rightarrow> None | Some (ms, r) \<Rightarrow> Some (JObject ms, r)))
          else if c = CHR ''n'' then
            (case strip_prefix ''ull'' cs of None \<Rightarrow> None | Some r \<Rightarrow> Some (JNull, r))
          else if c = CHR ''t'' then
            (case strip_prefix ''rue'' cs of None \<Rightarrow> None | Some r \<Rightarrow> Some (JBool True, r))
          else if c = CHR ''f'' then
            (case strip_prefix ''alse'' cs of None \<Rightarrow> None | Some r \<Rightarrow> Some (JBool False, r))
          else
            (case read_number (c # cs) of None \<Rightarrow> None | Some (i, r) \<Rightarrow> Some (JNumber i, r)))"
| "read_elements 0 s = None"
| "read_elements (Suc n) s =
     (case read_value n s of
        None \<Rightarrow> None
      | Some (v, r) \<Rightarrow>
          (case skip_ws r of
             [] \<Rightarrow> None
           | c # cs \<Rightarrow>
               if c = CHR '']'' then Some ([v], cs)
               else if c = CHR '','' then
                 (case read_elements n cs of None \<Rightarrow> None | Some (vs, r') \<Rightarrow> Some (v # vs, r'))
               else None))"
| "read_members 0 s = None"
| "read_members (Suc n) s =
     (case strip_prefix [CHR 0x22] (skip_ws s) of
        None \<Rightarrow> None
      | Some s1 \<Rightarrow>
          (case read_string s1 of
             None \<Rightarrow> None
           | Some (k, s2) \<Rightarrow>
               (case strip_prefix '':'' (skip_ws s2) of
                  None \<Rightarrow> None
                | Some s3 \<Rightarrow>
                    (case read_value n s3 of
                       None \<Rightarrow> None
                     | Some (v, r) \<Rightarrow>
                         (case skip_ws r of
                            [] \<Rightarrow> None
                          | c # cs \<Rightarrow>
                              if c = CHR ''}'' then Some ([(k, v)], cs)
                              else if c = CHR '','' then
                                (case read_members n cs of
                                   None \<Rightarrow> None
                                 | Some (ms, r') \<Rightarrow> Some ((k, v) # ms, r'))
                              else None)))))"

definition json_read :: "string \<Rightarrow> json option" where
  "json_read s =
     (case read_value (Suc (length s)) s of
        None \<Rightarrow> None
      | Some (v, r) \<Rightarrow> if skip_ws r = [] then Some v else None)"

subsection \<open>Messages\<close>

datatype role = System | User | Assistant

text \<open>
  A content part is a JavaScript object with a \<^verbatim>\<open>type\<close> and the optional properties
  \<^verbatim>\<open>image_url\<close> (an object holding the \<^verbatim>\<open>url\<close>) and \<^verbatim>\<open>text\<close>. The parts the
  client builds are objects of the same kind, so one record serves for both sides.
  \<open>None\<close> stands for a property that is missing (or undefined).
\<close>

record content_part =
  part_type :: string
  part_image_url :: "string option"
  part_text :: "string option"

datatype message_content = Str string | Parts "content_part list"

record chat_message =
  role :: role
  content :: message_content

text \<open>
  The \<^verbatim>\<open>image\<close> option. The code inspects it dynamically: a string, an object with a
  string \<^verbatim>\<open>url\<close> and/or a \<^verbatim>\<open>buffer\<close>, or any other value that JavaScript counts
  as true. \<open>ImageObject u b\<close> has \<open>u = Some s\<close> when \<^verbatim>\<open>'url' in image\<close> and
  \<^verbatim>\<open>typeof image.url === 'string'\<close>, and \<open>b = Some bytes\<close> when \<^verbatim>\<open>'buffer' in image\<close>
  and \<^verbatim>\<open>image.buffer\<close> is there.
\<close>

type_synonym byte = "8 word"

datatype image =
    ImageString string
  | ImageObject "string option" "byte list option"
  | ImageOther

subsection \<open>Base64, as \<^verbatim>\<open>Buffer.prototype.toString('base64')\<close> writes it\<close>

definition base64_alphabet :: string where
  "base64_alphabet =
     ''ABCDEFGHIJKLMNOPQRSTUVWXYZabcdefghijklmnopqrstuvwxyz0123456789+/''"

definition base64_digit :: "nat \<Rightarrow> char" where
  "base64_digit n = base64_alphabet ! (n mod 64)"

fun base64 :: "byte list \<Rightarrow> string" where
  "base64 [] = []"
| "base64 [a] =
     (let n = unat a * 65536
      in [base64_digit (n div 262144), base64_digit (n div 4096), CHR ''='', CHR ''=''])"
| "base64 [a, b] =
     (let n = unat a * 65536 + unat b * 256
      in [base64_digit (n div 262144), base64_digit (n div 4096),
          base64_digit (n div 64), CHR ''=''])"
| "base64 (a # b # c # rest) =
     (let n = unat a * 65536 + unat b * 256 + unat c
      in [base64_digit (n div 262144), base64_digit (n div 4096),
          base64_digit (n div 64), base64_digit n] @ base64 rest)"







subsection \<open>Formatting the messages\<close>

text \<open>
  The callback of \<^verbatim>\<open>message.content.map\<close>: an object with an \<^verbatim>\<open>image_url\<close> becomes
  an image part, otherwise one with a non-empty \<^verbatim>\<open>text\<close> becomes a text part, and
  anything else becomes the empty text part.
\<close>

definition imageContent :: "string \<Rightarrow> content_part" where
  "imageContent url =
     \<lparr>part_type = ''image_url'', part_image_url = Some url, part_text = None\<rparr>"

definition textContent :: "string \<Rightarrow> content_part" where
  "textContent t = \<lparr>part_type = ''text'', part_image_url = None, part_text = Some t\<rparr>"

definition fallbackContent :: content_part where
  "fallbackContent = textContent ''''"

definition contentPart :: "content_part \<Rightarrow> content_part" where
  "contentPart c =
     (case part_image_url c of
        Some url \<Rightarrow> imageContent url
      | None \<Rightarrow>
          (case part_text c of
             Some t \<Rightarrow> if t \<noteq> [] then textContent t else fallbackContent
           | None \<Rightarrow> fallbackContent))"

definition contentParts :: "content_part list \<Rightarrow> content_part list" where
  "contentParts cs = map contentPart cs"

text \<open>The type guard of the two \<^verbatim>\<open>filter\<close> calls: \<^verbatim>\<open>content.type === "text"\<close>.\<close>

definition is_text :: "content_part \<Rightarrow> bool" where
  "is_text c \<longleftrightarrow> part_type c = ''text''"

text \<open>
  The truth value JavaScript gives to a supplied \<^verbatim>\<open>image\<close> in
  \<^verbatim>\<open>message.role === "user" && image\<close>: the empty string counts as false. An image
  that is not supplied (undefined) is \<open>None\<close> in the options and false as well.
\<close>

fun truthy_image :: "image \<Rightarrow> bool" where
  "truthy_image (ImageString s) = (s \<noteq> [])"
| "truthy_image (ImageObject u b) = True"
| "truthy_image ImageOther = True"

text \<open>
  The local \<^verbatim>\<open>imageUrl\<close>; \<open>None\<close> on the two branches that warn
  \<^verbatim>\<open>Unsupported image format provided\<close> and return early.
\<close>

fun imageUrl :: "image \<Rightarrow> string option" where
  "imageUrl (ImageString s) = Some s"
| "imageUrl (ImageObject (Some url) b) = Some url"
| "imageUrl (ImageObject None (Some buffer)) =
     Some (''data:'' @ ''image/jpeg'' @ '';base64,'' @ base64 buffer)"
| "imageUrl (ImageObject None None) = None"
| "imageUrl ImageOther = None"

text \<open>The callback of \<^verbatim>\<open>options.messages.map\<close>.\<close>

definition formattedMessage :: "image option \<Rightarrow> chat_message \<Rightarrow> chat_message" where
  "formattedMessage img message =
     (case content message of
        Parts cs \<Rightarrow>
          (if role message = System then
             message\<lparr>role := System, content := Parts (filter is_text (contentParts cs))\<rparr>
           else if role message = User then
             message\<lparr>role := User, content := Parts (contentParts cs)\<rparr>
           else
             message\<lparr>role := Assistant, content := Parts (filter is_text (contentParts cs))\<rparr>)
      | Str s \<Rightarrow>
          (case img of
             Some i \<Rightarrow>
               (if role message = User \<and> truthy_image i then
                  (case imageUrl i of
                     None \<Rightarrow> \<lparr>role = User, content = content message\<rparr>
                   | Some url \<Rightarrow>
                       \<lparr>role = User,
                        content = Parts [textContent (case content message of
                                                        Str t \<Rightarrow> t | Parts ps \<Rightarrow> []),
                                         imageContent url]\<rparr>)
                else \<lparr>role = User, content = content message\<rparr>)
           | None \<Rightarrow> \<lparr>role = User, content = content message\<rparr>))"

text \<open>The calls of \<^verbatim>\<open>console.warn\<close> that formatting one message makes.\<close>

definition formatWarnings :: "image option \<Rightarrow> chat_message \<Rightarrow> string list" where
  "formatWarnings img message =
     (case content message of
        Parts cs \<Rightarrow> []
      | Str s \<Rightarrow>
          (case img of
             Some i \<Rightarrow>
               (if role message = User \<and> truthy_image i then
                  (case imageUrl i of
                     None \<Rightarrow> [''Unsupported image format provided'']
                   | Some url \<Rightarrow> [])
                else [])
           | None \<Rightarrow> []))"

definition formattedMessages :: "image option \<Rightarrow> chat_message list \<Rightarrow> chat_message list" where
  "formattedMessages img messages = map (formattedMessage img) messages"

subsection \<open>Options, request body, response\<close>

text \<open>
  A zod schema is used through \<^verbatim>\<open>schema.parse\<close> only, which returns the parsed value
  or throws: \<open>None\<close> is the throw.
\<close>

type_synonym zod_schema = "json \<Rightarrow> json option"

record response_model =
  rm_name :: string
  rm_schema :: zod_schema

record tool =
  tool_name :: string
  tool_description :: string
  tool_parameters :: json

text \<open>
  \<^verbatim>\<open>options\<close>, of the library type \<^verbatim>\<open>ChatCompletionOptions\<close>: the properties the
  client names, and in \<open>other_options\<close> the remaining ones (temperature, token limits
  and so on), which are passed through by name.
\<close>

record chat_options =
  messages :: "chat_message list"
  image_opt :: "image option"
  requestId :: "string option"
  response_model :: "response_model option"
  tools :: "tool list option"
  model :: "string option"
  other_options :: "(string \<times> json) list"

text \<open>What \<^verbatim>\<open>zodResponseFormat(schema, name)\<close> of the OpenAI helpers returns, kept symbolic.\<close>

datatype response_format = ZodResponseFormat zod_schema string

record function_tool =
  function_name :: string
  function_description :: string
  function_parameters :: json
  function_type :: string

record body =
  body_model :: string
  body_messages :: "chat_message list"
  body_response_format :: "response_format option"
  body_stream :: bool
  body_tools :: "function_tool list option"
  body_other :: "(string \<times> json) list"

record 'a usage_fields =
  prompt_tokens :: 'a
  completion_tokens :: 'a
  total_tokens :: 'a

text \<open>A choice of the response, reduced to its \<^verbatim>\<open>message.content\<close> (a string or null).\<close>

record chat_choice =
  message_content :: "string option"

record chat_completion =
  choices :: "chat_choice list"
  completion_usage :: "int option usage_fields option"

text \<open>The object the method returns.\<close>

record completion_result =
  data :: json
  usage :: "int usage_fields"

text \<open>
  What the method throws: its two \<^verbatim>\<open>new Error(...)\<close> with their messages, the
  \<^verbatim>\<open>TypeError\<close> of reading a property of \<^verbatim>\<open>undefined\<close>, the \<^verbatim>\<open>SyntaxError\<close> of
  \<^verbatim>\<open>JSON.parse\<close>, and whatever the provider call rejects with.
\<close>

datatype 'e error = Error string | TypeError | SyntaxError | Rejected 'e

abbreviation EmptyResponse :: "'e error" where
  "EmptyResponse \<equiv> Error ''No content in response''"

abbreviation InvalidSchema :: "'e error" where
  "InvalidSchema \<equiv> Error ''Invalid response schema''"

abbreviation TransportFailure :: "'e \<Rightarrow> 'e error" where
  "TransportFailure e \<equiv> Rejected e"

definition validateZodSchema :: "zod_schema \<Rightarrow> json \<Rightarrow> bool" where
  "validateZodSchema schema d = (case schema d of Some v \<Rightarrow> True | None \<Rightarrow> False)"

definition responseFormat :: "chat_options \<Rightarrow> response_format option" where
  "responseFormat opts =
     (case response_model opts of
        Some rm \<Rightarrow> Some (ZodResponseFormat (rm_schema rm) (rm_name rm))
      | None \<Rightarrow> None)"

text \<open>
  \<^verbatim>\<open>{...optionsWithoutImageAndRequestId, requestId}\<close> and \<^verbatim>\<open>openaiOptions\<close>, as the
  options with the removed properties cleared.
\<close>

definition optionsWithRequestId :: "chat_options \<Rightarrow> chat_options" where
  "optionsWithRequestId opts = opts\<lparr>image_opt := None\<rparr>"

definition openaiOptions :: "string \<Rightarrow> chat_options \<Rightarrow> chat_options" where
  "openaiOptions modelName opts =
     opts\<lparr>image_opt := None, requestId := None, response_model := None,
          model := Some modelName\<rparr>"

definition functionTool :: "tool \<Rightarrow> function_tool" where
  "functionTool t =
     \<lparr>function_name = tool_name t, function_description = tool_description t,
      function_parameters = tool_parameters t, function_type = ''function''\<rparr>"

definition requestBody :: "string \<Rightarrow> chat_options \<Rightarrow> body" where
  "requestBody modelName opts =
     \<lparr>body_model = modelName,
      body_messages = formattedMessages (image_opt opts) (messages opts),
      body_response_format = responseFormat opts,
      body_stream = False,
      body_tools = map_option (map functionTool) (tools opts),
      body_other = other_options (openaiOptions modelName opts)\<rparr>"

definition usageOf :: "chat_completion \<Rightarrow> int usage_fields" where
  "usageOf response =
     (case completion_usage response of
        None \<Rightarrow> \<lparr>prompt_tokens = 0, completion_tokens = 0, total_tokens = 0\<rparr>
      | Some u \<Rightarrow>
          \<lparr>prompt_tokens = (case prompt_tokens u of None \<Rightarrow> 0 | Some n \<Rightarrow> n),
           completion_tokens = (case completion_tokens u of None \<Rightarrow> 0 | Some n \<Rightarrow> n),
           total_tokens = (case total_tokens u of None \<Rightarrow> 0 | Some n \<Rightarrow> n)\<rparr>)"

subsection \<open>Log lines\<close>

text \<open>
  An auxiliary value is either a plain string or \<^verbatim>\<open>JSON.stringify\<close> of an object; the
  object is kept as it is.
\<close>

datatype logged =
    StringifiedOptions chat_options
  | StringifiedResponse chat_completion
  | PlainString string

record log_line =
  log_category :: string
  log_message :: string
  log_level :: nat
  log_auxiliary :: "(string \<times> logged \<times> string) list"

definition logOptions :: "string \<Rightarrow> chat_options \<Rightarrow> log_line" where
  "logOptions modelName opts =
     \<lparr>log_category = ''openai'', log_message = ''creating chat completion'', log_level = 1,
      log_auxiliary =
        [(''options'', StringifiedOptions (optionsWithRequestId opts), ''object''),
         (''modelName'', PlainString modelName, ''string'')]\<rparr>"

definition logOpenaiOptions :: "string \<Rightarrow> chat_options \<Rightarrow> log_line" where
  "logOpenaiOptions modelName opts =
     \<lparr>log_category = ''openai'', log_message = ''creating chat completion'', log_level = 1,
      log_auxiliary =
        [(''openaiOptions'', StringifiedOptions (openaiOptions modelName opts), ''object'')]\<rparr>"

definition logResponse :: "chat_completion \<Rightarrow> chat_options \<Rightarrow> log_line" where
  "logResponse response opts =
     \<lparr>log_category = ''openai'', log_message = ''response'', log_level = 1,
      log_auxiliary =
        [(''response'', StringifiedResponse response, ''object''),
         (''requestId'',
          PlainString (case requestId opts of None \<Rightarrow> [] | Some r \<Rightarrow> r), ''string'')]\<rparr>"

subsection \<open>The client and its surroundings\<close>

text \<open>
  The provider behind \<^verbatim>\<open>this.client.chat.completions.create\<close> is a function of the
  request body and of the state \<open>'w\<close> of the outside world: it answers with a response or
  rejects, and leaves a new state. The caller's \<^verbatim>\<open>logger\<close> acts on a state \<open>'s\<close> of
  its own. Besides both, the state keeps the \<open>trace\<close> of what the method has done to
  its surroundings, in order: the log lines given to the logger, the warnings written
  with \<^verbatim>\<open>console.warn\<close>, and the bodies sent to the provider.
\<close>

record ('w, 'e) custom_openai_client =
  modelName :: string
  create :: "body \<Rightarrow> 'w \<Rightarrow> ('e + chat_completion) \<times> 'w"

datatype event = Logged log_line | Warned string | Dispatched body

record ('w, 's) state =
  world :: 'w
  sink :: 's
  trace :: "event list"

record 's create_args =
  options :: chat_options
  retries :: "int option"
  logger :: "log_line \<Rightarrow> 's \<Rightarrow> 's"

definition log_with :: "(log_line \<Rightarrow> 's \<Rightarrow> 's) \<Rightarrow> log_line \<Rightarrow> ('w, 's) state \<Rightarrow> ('w, 's) state" where
  "log_with lg l st = st\<lparr>sink := lg l (sink st), trace := trace st @ [Logged l]\<rparr>"

definition warn_all :: "string list \<Rightarrow> ('w, 's) state \<Rightarrow> ('w, 's) state" where
  "warn_all ws st = st\<lparr>trace := trace st @ map Warned ws\<rparr>"

definition dispatch ::
  "('w, 'e) custom_openai_client \<Rightarrow> body \<Rightarrow> ('w, 's) state \<Rightarrow> ('e + chat_completion) \<times> ('w, 's) state"
where
  "dispatch this b st =
     (case create this b (world st) of
        (outcome, w) \<Rightarrow> (outcome, st\<lparr>world := w, trace := trace st @ [Dispatched b]\<rparr>))"

text \<open>
  \<^verbatim>\<open>createChatCompletion({options, retries = 3, logger})\<close>. \<open>JSON_parse\<close> is the
  runtime's \<^verbatim>\<open>JSON.parse\<close>, with \<open>None\<close> where it throws.
\<close>

function createChatCompletion ::
  "(string \<Rightarrow> json option) \<Rightarrow> ('w, 'e) custom_openai_client \<Rightarrow> 's create_args \<Rightarrow>
   ('w, 's) state \<Rightarrow> ('e error + completion_result) \<times> ('w, 's) state"
where
  "createChatCompletion JSON_parse this args st =
     (let opts = options args;
          budget = (case retries args of None \<Rightarrow> 3 | Some r \<Rightarrow> r);
          st1 = log_with (logger args) (logOptions (modelName this) opts) st;
          st2 = log_with (logger args) (logOpenaiOptions (modelName this) opts) st1;
          st3 = warn_all (concat (map (formatWarnings (image_opt opts)) (messages opts))) st2;
          sent = dispatch this (requestBody (modelName this) opts) st3
      in case fst sent of
           Inl e \<Rightarrow> (Inl (Rejected e), snd sent)
         | Inr response \<Rightarrow>
             (let st4 = log_with (logger args) (logResponse response opts) (snd sent)
              in case response_model opts of
                   Some rm \<Rightarrow>
                     (case choices response of
                        [] \<Rightarrow> (Inl TypeError, st4)
                      | choice # others \<Rightarrow>
                          (case message_content choice of
                             None \<Rightarrow> (Inl (Error ''No content in response''), st4)
                           | Some extractedData \<Rightarrow>
                               if extractedData = [] then
                                 (Inl (Error ''No content in response''), st4)
                               else
                                 (case JSON_parse extractedData of
                                    None \<Rightarrow> (Inl SyntaxError, st4)
                                  | Some parsedData \<Rightarrow>
                                      if \<not> validateZodSchema (rm_schema rm) parsedData then
                                        (if budget > 0 then
                                           createChatCompletion JSON_parse this
                                             (args\<lparr>retries := Some (budget - 1)\<rparr>) st4
                                         else (Inl (Error ''Invalid response schema''), st4))
                                      else
                                        (Inr \<lparr>data = parsedData, usage = usageOf response\<rparr>,
                                         st4))))
                 | None \<Rightarrow>
                     (case choices response of
                        [] \<Rightarrow> (Inl TypeError, st4)
                      | choice # others \<Rightarrow>
                          (Inr \<lparr>data = (case message_content choice of
                                          None \<Rightarrow> JNull | Some t \<Rightarrow> JString t),
                                usage = usageOf response\<rparr>, st4))))"
  by pat_completeness auto
termination
  by (relation "measure (\<lambda>(p, this, args, st). nat (case retries args of None \<Rightarrow> 3 | Some r \<Rightarrow> r))")
     auto

subsection \<open>Reading the trace\<close>

fun dispatched :: "event list \<Rightarrow> body list" where
  "dispatched [] = []"
| "dispatched (Dispatched b # es) = b # dispatched es"
| "dispatched (e # es) = dispatched es"

fun logged_lines :: "event list \<Rightarrow> log_line list" where
  "logged_lines [] = []"
| "logged_lines (Logged l # es) = l # logged_lines es"
| "logged_lines (e # es) = logged_lines es"

text \<open>
  The state in which one call of the method sends its request, and the state in which
  it has logged the response it got, with \<open>w\<close> the state the provider left.
\<close>

definition prepared ::
  "('w, 'e) custom_openai_client \<Rightarrow> 's create_args \<Rightarrow> ('w, 's) state \<Rightarrow> ('w, 's) state"
where
  "prepared this args st =
     warn_all (concat (map (formatWarnings (image_opt (options args))) (messages (options args))))
       (log_with (logger args) (logOpenaiOptions (modelName this) (options args))
          (log_with (logger args) (logOptions (modelName this) (options args)) st))"

definition received ::
  "('w, 'e) custom_openai_client \<Rightarrow> 's create_args \<Rightarrow> chat_completion \<Rightarrow> 'w \<Rightarrow>
   ('w, 's) state \<Rightarrow> ('w, 's) state"
where
  "received this args response w st =
     log_with (logger args) (logResponse response (options args))
       ((prepared this args st)
          \<lparr>world := w,
           trace := trace (prepared this args st)
                    @ [Dispatched (requestBody (modelName this) (options args))]\<rparr>)"

text \<open>
  A provider whose every answer, to any request and in any state, is a response with a
  non-empty payload that parses and that the schema rejects.
\<close>

definition never_validates ::
  "(string \<Rightarrow> json option) \<Rightarrow> zod_schema \<Rightarrow> ('w, 'e) custom_openai_client \<Rightarrow> bool"
where
  "never_validates JSON_parse schema this \<longleftrightarrow>
     (\<forall>b w. \<exists>response w' choice others payload parsedData.
        create this b w = (Inr response, w') \<and> choices response = choice # others \<and>
        message_content choice = Some payload \<and> payload \<noteq> [] \<and>
        JSON_parse payload = Some parsedData \<and> \<not> validateZodSchema schema parsedData)"

text \<open>What one call does up to and including its request.\<close>

definition request_events :: "('w, 'e) custom_openai_client \<Rightarrow> 's create_args \<Rightarrow> event list" where
  "request_events this args =
     [Logged (logOptions (modelName this) (options args)),
      Logged (logOpenaiOptions (modelName this) (options args))]
     @ map Warned (concat (map (formatWarnings (image_opt (options args))) (messages (options args))))
     @ [Dispatched (requestBody (modelName this) (options args))]"

text \<open>The retries a call has left: the default of the parameter is 3.\<close>

definition budget :: "'s create_args \<Rightarrow> int" where
  "budget args = (case retries args of None \<Rightarrow> 3 | Some r \<Rightarrow> r)"

subsection \<open>A scripted provider and the scenario of the specification\<close>

text \<open>
  The provider of the scenarios answers from a script: the state of the world is the
  list of the responses still to come, and a request to the exhausted script is rejected.
\<close>

definition scripted :: "body \<Rightarrow> chat_completion list \<Rightarrow> (string + chat_completion) \<times> chat_completion list" where
  "scripted b script =
     (case script of
        [] \<Rightarrow> (Inl ''script exhausted'', [])
      | r # rs \<Rightarrow> (Inr r, rs))"

definition reply :: "string option \<Rightarrow> chat_completion" where
  "reply payload = \<lparr>choices = [\<lparr>message_content = payload\<rparr>], completion_usage = None\<rparr>"

text \<open>
  A provider that answers every request with the same payload; the state of the world
  counts the requests it has served.
\<close>

definition insisting :: "string \<Rightarrow> body \<Rightarrow> nat \<Rightarrow> (string + chat_completion) \<times> nat" where
  "insisting payload b n = (Inr (reply (Some payload)), Suc n)"

definition gpt :: "(chat_completion list, string) custom_openai_client" where
  "gpt = \<lparr>modelName = ''gpt-4o'', create = scripted\<rparr>"

text \<open>The schema \<^verbatim>\<open>typeof v.isLoggedIn === "boolean"\<close> of the scenarios.\<close>

definition isLoggedIn_schema :: zod_schema where
  "isLoggedIn_schema v =
     (case v of
        JObject ms \<Rightarrow>
          (case map_of (rev ms) ''isLoggedIn'' of
             Some (JBool b) \<Rightarrow> Some v
           | _ \<Rightarrow> None)
      | _ \<Rightarrow> None)"

definition ask :: "role \<Rightarrow> string \<Rightarrow> chat_message" where
  "ask r s = \<lparr>role = r, content = Str s\<rparr>"

definition bool_options :: chat_options where
  "bool_options =
     \<lparr>messages = [ask User ''Am I logged in?''], image_opt = None, requestId = None,
      response_model = Some \<lparr>rm_name = ''Bool'', rm_schema = isLoggedIn_schema\<rparr>,
      tools = None, model = None, other_options = []\<rparr>"

definition text_options :: chat_options where
  "text_options = bool_options\<lparr>response_model := None\<rparr>"

text \<open>A logger that keeps the lines it is given.\<close>

definition keep_line :: "log_line \<Rightarrow> log_line list \<Rightarrow> log_line list" where
  "keep_line l s = s @ [l]"

definition call :: "chat_options \<Rightarrow> int option \<Rightarrow> log_line list create_args" where
  "call opts r = \<lparr>options = opts, retries = r, logger = keep_line\<rparr>"

definition start :: "chat_completion list \<Rightarrow> (chat_completion list, log_line list) state" where
  "start script = \<lparr>world = script, sink = [], trace = []\<rparr>"

section \<open>Properties\<close>

subsection \<open>One call of the method, unfolded\<close>

declare createChatCompletion.simps [simp del]

lemma dispatched_append: "dispatched (xs @ ys) = dispatched xs @ dispatched ys"
  by (induction xs rule: dispatched.induct) simp_all

lemma logged_lines_append: "logged_lines (xs @ ys) = logged_lines xs @ logged_lines ys"
  by (induction xs rule: logged_lines.induct) simp_all

lemma dispatched_Warned: "dispatched (map Warned ws) = []"
  by (induction ws) simp_all

lemma logged_lines_Warned: "logged_lines (map Warned ws) = []"
  by (induction ws) simp_all

lemma world_prepared: "world (prepared this args st) = world st"
  by (simp add: prepared_def warn_all_def log_with_def)

lemma world_received: "world (received this args response w st) = w"
  by (simp add: received_def log_with_def)

lemma dispatched_received:
  "dispatched (trace (received this args response w st)) =
     dispatched (trace st) @ [requestBody (modelName this) (options args)]"
  by (simp add: received_def prepared_def warn_all_def log_with_def dispatched_append
      dispatched_Warned)

lemma logged_lines_received:
  "logged_lines (trace (received this args response w st)) =
     logged_lines (trace st) @
       [logOptions (modelName this) (options args),
        logOpenaiOptions (modelName this) (options args),
        logResponse response (options args)]"
  by (simp add: received_def prepared_def warn_all_def log_with_def logged_lines_append
      logged_lines_Warned)

lemma cc_rejected:
  assumes "create this (requestBody (modelName this) (options args)) (world st) = (Inl e, w)"
  shows "createChatCompletion P this args st =
           (Inl (Rejected e),
            (prepared this args st)
              \<lparr>world := w,
               trace := trace (prepared this args st)
                        @ [Dispatched (requestBody (modelName this) (options args))]\<rparr>)"
  using assms
  by (subst createChatCompletion.simps)
     (simp add: Let_def dispatch_def prepared_def world_prepared [unfolded prepared_def])

lemma cc_answered:
  assumes "create this (requestBody (modelName this) (options args)) (world st) = (Inr response, w)"
  shows "createChatCompletion P this args st =
     (let st4 = received this args response w st;
          budget = (case retries args of None \<Rightarrow> 3 | Some r \<Rightarrow> r)
      in case response_model (options args) of
           Some rm \<Rightarrow>
             (case choices response of
                [] \<Rightarrow> (Inl TypeError, st4)
              | choice # others \<Rightarrow>
                  (case message_content choice of
                     None \<Rightarrow> (Inl EmptyResponse, st4)
                   | Some extractedData \<Rightarrow>
                       if extractedData = [] then (Inl EmptyResponse, st4)
                       else
                         (case P extractedData of
                            None \<Rightarrow> (Inl SyntaxError, st4)
                          | Some parsedData \<Rightarrow>
                              if \<not> validateZodSchema (rm_schema rm) parsedData then
                                (if budget > 0 then
                                   createChatCompletion P this (args\<lparr>retries := Some (budget - 1)\<rparr>) st4
                                 else (Inl InvalidSchema, st4))
                              else (Inr \<lparr>data = parsedData, usage = usageOf response\<rparr>, st4))))
         | None \<Rightarrow>
             (case choices response of
                [] \<Rightarrow> (Inl TypeError, st4)
              | choice # others \<Rightarrow>
                  (Inr \<lparr>data = (case message_content choice of None \<Rightarrow> JNull | Some t \<Rightarrow> JString t),
                        usage = usageOf response\<rparr>, st4)))"
  using assms
  by (subst createChatCompletion.simps)
     (simp add: Let_def dispatch_def received_def prepared_def world_prepared [unfolded prepared_def]
        cong: option.case_cong list.case_cong if_cong)

lemma received_retries [simp]:
  "received this (args\<lparr>retries := r\<rparr>) response w st = received this args response w st"
  by (simp add: received_def prepared_def)

lemma budget_retries [simp]: "budget (args\<lparr>retries := Some r\<rparr>) = r"
  by (simp add: budget_def)

lemma cc_invalid:
  assumes "create this (requestBody (modelName this) (options args)) (world st) = (Inr response, w)"
    and "response_model (options args) = Some rm"
    and "choices response = choice # others"
    and "message_content choice = Some payload" and "payload \<noteq> []"
    and "P payload = Some parsedData"
    and "\<not> validateZodSchema (rm_schema rm) parsedData"
  shows "createChatCompletion P this args st =
           (if 0 < budget args then
              createChatCompletion P this (args\<lparr>retries := Some (budget args - 1)\<rparr>)
                (received this args response w st)
            else (Inl InvalidSchema, received this args response w st))"
  using cc_answered [OF assms(1), of P] assms(2-)
  by (simp add: Let_def budget_def)

lemma never_validates_run:
  assumes "response_model (options args) = Some rm"
    and "never_validates P (rm_schema rm) this"
  shows "fst (createChatCompletion P this args st) = Inl InvalidSchema
       \<and> dispatched (trace (snd (createChatCompletion P this args st))) =
           dispatched (trace st)
           @ replicate (nat (budget args) + 1) (requestBody (modelName this) (options args))"
  using assms
proof (induction "nat (budget args)" arbitrary: args st)
  case 0
  from \<open>never_validates P (rm_schema rm) this\<close>
  obtain response w choice others payload parsedData where
    a: "create this (requestBody (modelName this) (options args)) (world st) = (Inr response, w)"
      "choices response = choice # others" "message_content choice = Some payload"
      "payload \<noteq> []" "P payload = Some parsedData"
      "\<not> validateZodSchema (rm_schema rm) parsedData"
    unfolding never_validates_def by metis
  from 0 have "\<not> 0 < budget args" by simp
  with cc_invalid [where P = P and payload = payload, OF a(1) "0.prems"(1) a(2-)] 0 show ?case
    by (simp add: dispatched_received)
next
  case (Suc n)
  from \<open>never_validates P (rm_schema rm) this\<close>
  obtain response w choice others payload parsedData where
    a: "create this (requestBody (modelName this) (options args)) (world st) = (Inr response, w)"
      "choices response = choice # others" "message_content choice = Some payload"
      "payload \<noteq> []" "P payload = Some parsedData"
      "\<not> validateZodSchema (rm_schema rm) parsedData"
    unfolding never_validates_def by metis
  let ?args = "args\<lparr>retries := Some (budget args - 1)\<rparr>"
  let ?st = "received this args response w st"
  from Suc have pos: "0 < budget args" and n: "n = nat (budget ?args)" by simp_all
  have step: "createChatCompletion P this args st = createChatCompletion P this ?args ?st"
    using cc_invalid [where P = P and payload = payload, OF a(1) Suc.prems(1) a(2-)] pos by simp
  have "response_model (options ?args) = Some rm" using Suc.prems(1) by simp
  from Suc.hyps(1) [OF n this Suc.prems(2), of ?st]
  have ih: "fst (createChatCompletion P this ?args ?st) = Inl InvalidSchema"
    "dispatched (trace (snd (createChatCompletion P this ?args ?st))) =
       dispatched (trace ?st) @ replicate (nat (budget ?args) + 1)
         (requestBody (modelName this) (options ?args))"
    by simp_all
  have "nat (budget args) = Suc (nat (budget ?args))" using pos by simp
  with step ih show ?case
    by (simp add: dispatched_received replicate_append_same)
qed

lemma cc_less_induct [case_names step]:
  assumes "\<And>args st. (\<And>args' st'. nat (budget args') < nat (budget args) \<Longrightarrow> Q args' st') \<Longrightarrow> Q args st"
  shows "Q (args :: 's create_args) (st :: ('w, 's) state)"
proof (induction "nat (budget args)" arbitrary: args st rule: less_induct)
  case less
  show ?case by (rule assms) (rule less, simp)
qed

text \<open>Every call is of one of three kinds.\<close>

lemma cc_kinds [case_names rejected final retry]:
  fixes st :: "('w, 's) state"
  assumes "\<And>e w. create this (requestBody (modelName this) (options args)) (world st) = (Inl e, w) \<Longrightarrow>
             createChatCompletion P this args st =
               (Inl (Rejected e),
                (prepared this args st)
                  \<lparr>world := w,
                   trace := trace (prepared this args st)
                            @ [Dispatched (requestBody (modelName this) (options args))]\<rparr>) \<Longrightarrow> R"
    and "\<And>response w res.
           create this (requestBody (modelName this) (options args)) (world st) = (Inr response, w) \<Longrightarrow>
           createChatCompletion P this args st = (res, received this args response w st) \<Longrightarrow>
           (\<forall>e. res \<noteq> Inl (Rejected e)) \<Longrightarrow>
           (res = Inl TypeError \<longleftrightarrow> choices response = []) \<Longrightarrow> R"
    and "\<And>response w.
           create this (requestBody (modelName this) (options args)) (world st) = (Inr response, w) \<Longrightarrow>
           0 < budget args \<Longrightarrow>
           createChatCompletion P this args st =
             createChatCompletion P this (args\<lparr>retries := Some (budget args - 1)\<rparr>)
               (received this args response w st) \<Longrightarrow> R"
  shows R
proof (cases "create this (requestBody (modelName this) (options args)) (world st)")
  case (Pair outcome w)
  show ?thesis
  proof (cases outcome)
    case (Inl e)
    with Pair assms(1) cc_rejected [of this args st e w P] show ?thesis by simp
  next
    case (Inr response)
    with Pair have c: "create this (requestBody (modelName this) (options args)) (world st) = (Inr response, w)"
      by simp
    note u = cc_answered [OF c, of P]
    show ?thesis
    proof (cases "\<exists>rm choice others payload parsedData.
        response_model (options args) = Some rm \<and> choices response = choice # others \<and>
        message_content choice = Some payload \<and> payload \<noteq> [] \<and> P payload = Some parsedData \<and>
        \<not> validateZodSchema (rm_schema rm) parsedData \<and> 0 < budget args")
      case True
      then show ?thesis using assms(3) [OF c] u by (auto simp: Let_def budget_def)
    next
      case False
      then show ?thesis using assms(2) [OF c] u
        by (auto simp: Let_def budget_def split: option.splits list.splits if_splits)
    qed
  qed
qed

lemma received_logger_sink:
  "received this (args\<lparr>logger := lg\<rparr>) response w (st\<lparr>sink := s\<rparr>) =
     (received this args response w st)
       \<lparr>sink := lg (logResponse response (options args))
                 (lg (logOpenaiOptions (modelName this) (options args))
                    (lg (logOptions (modelName this) (options args)) s))\<rparr>"
  by (simp add: received_def prepared_def warn_all_def log_with_def)

lemma sink_received:
  "sink (received this args response w st) =
     logger args (logResponse response (options args))
       (logger args (logOpenaiOptions (modelName this) (options args))
          (logger args (logOptions (modelName this) (options args)) (sink st)))"
  by (simp add: received_def prepared_def warn_all_def log_with_def)

lemma trace_received:
  "trace (received this args response w st) =
     trace st @ [Logged (logOptions (modelName this) (options args)),
                 Logged (logOpenaiOptions (modelName this) (options args))]
     @ map Warned (concat (map (formatWarnings (image_opt (options args))) (messages (options args))))
     @ [Dispatched (requestBody (modelName this) (options args)),
        Logged (logResponse response (options args))]"
  by (simp add: received_def prepared_def warn_all_def log_with_def)

lemma logger_independent:
  fixes st :: "('w, 's) state"
  shows "fst (createChatCompletion P this (args\<lparr>logger := lg\<rparr>) (st\<lparr>sink := s\<rparr>)) =
           fst (createChatCompletion P this args st)
       \<and> world (snd (createChatCompletion P this (args\<lparr>logger := lg\<rparr>) (st\<lparr>sink := s\<rparr>))) =
           world (snd (createChatCompletion P this args st))
       \<and> trace (snd (createChatCompletion P this (args\<lparr>logger := lg\<rparr>) (st\<lparr>sink := s\<rparr>))) =
           trace (snd (createChatCompletion P this args st))"
proof (induction args st arbitrary: s rule: cc_less_induct)
  case (step args st)
  let ?args = "args\<lparr>logger := lg\<rparr>" and ?st = "st\<lparr>sink := s\<rparr>"
  show ?case
  proof (cases "create this (requestBody (modelName this) (options args)) (world st)")
    case (Pair outcome w)
    show ?thesis
    proof (cases outcome)
      case (Inl e)
      with Pair have "create this (requestBody (modelName this) (options args)) (world st) = (Inl e, w)"
        and "create this (requestBody (modelName this) (options ?args)) (world ?st) = (Inl e, w)"
        by simp_all
      from cc_rejected [OF this(1), of P] cc_rejected [OF this(2), of P] show ?thesis
        by (simp add: prepared_def warn_all_def log_with_def)
    next
      case (Inr response)
      with Pair have c: "create this (requestBody (modelName this) (options args)) (world st) = (Inr response, w)"
        and c': "create this (requestBody (modelName this) (options ?args)) (world ?st) = (Inr response, w)"
        by simp_all
      let ?next = "args\<lparr>retries := Some (budget args - 1)\<rparr>"
      have ih: "0 < budget args \<Longrightarrow>
          fst (createChatCompletion P this (?next\<lparr>logger := lg\<rparr>) ((received this args response w st)\<lparr>sink := s'\<rparr>)) =
            fst (createChatCompletion P this ?next (received this args response w st))
        \<and> world (snd (createChatCompletion P this (?next\<lparr>logger := lg\<rparr>) ((received this args response w st)\<lparr>sink := s'\<rparr>))) =
            world (snd (createChatCompletion P this ?next (received this args response w st)))
        \<and> trace (snd (createChatCompletion P this (?next\<lparr>logger := lg\<rparr>) ((received this args response w st)\<lparr>sink := s'\<rparr>))) =
            trace (snd (createChatCompletion P this ?next (received this args response w st)))" for s'
        by (rule step) simp
      have sw: "?next\<lparr>logger := lg\<rparr> = ?args\<lparr>retries := Some (budget args - 1)\<rparr>"
        by simp
      from cc_answered [OF c, of P] cc_answered [OF c', of P] show ?thesis
        by (simp add: Let_def received_logger_sink ih [unfolded sw] budget_def [symmetric]
            world_received trace_received
            split: option.splits list.splits)
    qed
  qed
qed

lemma request_events_retries [simp]:
  "request_events this (args\<lparr>retries := r\<rparr>) = request_events this args"
  by (simp add: request_events_def)

lemma logged_lines_request_events:
  "logged_lines (request_events this args) =
     [logOptions (modelName this) (options args), logOpenaiOptions (modelName this) (options args)]"
  by (simp add: request_events_def logged_lines_append logged_lines_Warned)

lemma dispatched_request_events:
  "dispatched (request_events this args) = [requestBody (modelName this) (options args)]"
  by (simp add: request_events_def dispatched_append dispatched_Warned)

lemma trace_received_events:
  "trace (received this args response w st) =
     trace st @ request_events this args @ [Logged (logResponse response (options args))]"
  by (simp add: trace_received request_events_def)

lemma trace_shape:
  fixes st :: "('w, 's) state"
  shows "\<exists>tr rest.
      trace (snd (createChatCompletion P this args st)) = trace st @ tr
    \<and> tr = request_events this args @ rest
    \<and> (case fst (create this (requestBody (modelName this) (options args)) (world st)) of
          Inl e \<Rightarrow> rest = []
        | Inr response \<Rightarrow> \<exists>rest'. rest = Logged (logResponse response (options args)) # rest')
    \<and> length (logged_lines tr)
        + (case fst (createChatCompletion P this args st) of Inl (Rejected e) \<Rightarrow> 1 | _ \<Rightarrow> 0)
        = 3 * length (dispatched tr)
    \<and> sink (snd (createChatCompletion P this args st)) =
        foldl (\<lambda>s l. logger args l s) (sink st) (logged_lines tr)"
proof (induction args st rule: cc_less_induct)
  case (step args st)
  show ?case
  proof (cases rule: cc_kinds [of this args st P])
    case (rejected e w)
    show ?thesis
      apply (rule exI [of _ "request_events this args"])
      apply (rule exI [of _ "[]"])
      using rejected
      by (simp add: logged_lines_request_events dispatched_request_events)
         (simp add: request_events_def prepared_def warn_all_def log_with_def)
  next
    case (final response w res)
    have "(case res of Inl (Rejected e) \<Rightarrow> 1 | _ \<Rightarrow> 0) = (0::nat)"
      using final(3) by (auto split: sum.splits error.splits)
    then show ?thesis
      apply -
      apply (rule exI [of _ "request_events this args @ [Logged (logResponse response (options args))]"])
      apply (rule exI [of _ "[Logged (logResponse response (options args))]"])
      using final(1,2)
      by (simp add: logged_lines_request_events dispatched_request_events logged_lines_append
          dispatched_append trace_received_events sink_received)
  next
    case (retry response w)
    let ?args = "args\<lparr>retries := Some (budget args - 1)\<rparr>"
    let ?st = "received this args response w st"
    have "nat (budget ?args) < nat (budget args)" using retry(2) by simp
    from step [OF this, of ?st] obtain tr2 where
      t: "trace (snd (createChatCompletion P this ?args ?st)) = trace ?st @ tr2"
      and n: "length (logged_lines tr2)
          + (case fst (createChatCompletion P this ?args ?st) of Inl (Rejected e) \<Rightarrow> 1 | _ \<Rightarrow> 0)
          = 3 * length (dispatched tr2)"
      and s: "sink (snd (createChatCompletion P this ?args ?st)) =
          foldl (\<lambda>s l. logger ?args l s) (sink ?st) (logged_lines tr2)"
      by blast
    show ?thesis
      apply (rule exI [of _ "request_events this args @ Logged (logResponse response (options args)) # tr2"])
      apply (rule exI [of _ "Logged (logResponse response (options args)) # tr2"])
      using retry(1,3) t n s
      by (simp add: logged_lines_request_events dispatched_request_events logged_lines_append
          dispatched_append trace_received_events sink_received)
  qed
qed

subsection \<open>Base64\<close>
















subsection \<open>Formatting\<close>

lemma contentPart_idem: "contentPart (contentPart c) = contentPart c"
  by (simp add: contentPart_def imageContent_def textContent_def fallbackContent_def
      split: option.splits)

lemma is_text_contentPart: "is_text (contentPart c) \<longleftrightarrow> part_image_url c = None"
  by (simp add: contentPart_def is_text_def imageContent_def textContent_def fallbackContent_def
      split: option.splits)

lemma text_part_no_image_url: "part_type (contentPart c) = ''text'' \<Longrightarrow> part_image_url (contentPart c) = None"
  by (simp add: contentPart_def imageContent_def textContent_def fallbackContent_def
      split: option.splits if_splits)

text \<open>
  Claim C4. For a message whose content is an array of parts, formatting never fails
  (it is a total function to messages) and depends on the role: a system or assistant
  message keeps its role and exactly the text parts among the classified parts, in
  order, so that every part left has type \<^verbatim>\<open>text\<close> and no \<^verbatim>\<open>image_url\<close>, and
  the list may be empty; a user message keeps every classified part, one for each part
  of the input, and each input part with an \<^verbatim>\<open>image_url\<close> is there as an image part.
\<close>

theorem array_content_by_role:
  assumes "content m = Parts ps"
  shows "(role m = System \<or> role m = Assistant \<longrightarrow>
            formattedMessage img m =
              \<lparr>role = role m, content = Parts (filter is_text (map contentPart ps))\<rparr>
            \<and> (\<forall>q \<in> set (filter is_text (map contentPart ps)).
                  part_type q = ''text'' \<and> part_image_url q = None))
       \<and> (role m = User \<longrightarrow>
            formattedMessage img m = \<lparr>role = User, content = Parts (map contentPart ps)\<rparr>
            \<and> length (map contentPart ps) = length ps
            \<and> (\<forall>p \<in> set ps. \<forall>u. part_image_url p = Some u \<longrightarrow>
                  imageContent u \<in> set (map contentPart ps)))"
proof -
  have fm: "formattedMessage img m =
      (if role m = User then \<lparr>role = User, content = Parts (map contentPart ps)\<rparr>
       else \<lparr>role = role m, content = Parts (filter is_text (map contentPart ps))\<rparr>)"
    using assms by (cases m; cases "role m") (simp_all add: formattedMessage_def contentParts_def)
  have texts: "\<forall>q \<in> set (filter is_text (map contentPart ps)).
               part_type q = ''text'' \<and> part_image_url q = None"
    by (auto simp: is_text_def dest: text_part_no_image_url)
  have imgs: "\<forall>p \<in> set ps. \<forall>u. part_image_url p = Some u \<longrightarrow>
               imageContent u \<in> set (map contentPart ps)"
  proof (intro ballI allI impI)
    fix p u
    assume "p \<in> set ps" and "part_image_url p = Some u"
    then have "contentPart p \<in> set (map contentPart ps)"
      by simp
    moreover from \<open>part_image_url p = Some u\<close> have "contentPart p = imageContent u"
      by (simp add: contentPart_def)
    ultimately show "imageContent u \<in> set (map contentPart ps)"
      by simp
  qed
  have sa: "role m = System \<or> role m = Assistant \<longrightarrow>
      formattedMessage img m =
        \<lparr>role = role m, content = Parts (filter is_text (map contentPart ps))\<rparr>"
    using fm by auto
  have us: "role m = User \<longrightarrow>
      formattedMessage img m = \<lparr>role = User, content = Parts (map contentPart ps)\<rparr>"
    using fm by simp
  have len: "length (map contentPart ps) = length ps"
    by simp
  from sa us len texts imgs show ?thesis
    by blast
qed

theorem array_content_by_role_witness:
  "formattedMessage None
     \<lparr>role = System, content = Parts [imageContent ''http://pec/captcha.png'']\<rparr> =
     \<lparr>role = System, content = Parts []\<rparr>
   \<and> formattedMessage None
     \<lparr>role = Assistant,
      content = Parts [textContent ''seen'', imageContent ''http://pec/captcha.png'']\<rparr> =
     \<lparr>role = Assistant, content = Parts [textContent ''seen'']\<rparr>
   \<and> formattedMessage None
     \<lparr>role = User,
      content = Parts [textContent ''read it'', imageContent ''http://pec/captcha.png'']\<rparr> =
     \<lparr>role = User,
      content = Parts [textContent ''read it'', imageContent ''http://pec/captcha.png'']\<rparr>"
proof -
  let ?img = "imageContent ''http://pec/captcha.png''"
  let ?s = "\<lparr>role = System, content = Parts [?img]\<rparr>"
  let ?a = "\<lparr>role = Assistant, content = Parts [textContent ''seen'', ?img]\<rparr>"
  let ?u = "\<lparr>role = User, content = Parts [textContent ''read it'', ?img]\<rparr>"
  have cs: "content ?s = Parts [?img]" and rs: "role ?s = System \<or> role ?s = Assistant"
    and ca: "content ?a = Parts [textContent ''seen'', ?img]"
    and ra: "role ?a = System \<or> role ?a = Assistant"
    and cu: "content ?u = Parts [textContent ''read it'', ?img]" and ru: "role ?u = User"
    by simp_all
  note s = array_content_by_role [OF cs, THEN conjunct1, THEN mp, OF rs, THEN conjunct1, of None]
  note a = array_content_by_role [OF ca, THEN conjunct1, THEN mp, OF ra, THEN conjunct1, of None]
  note u = array_content_by_role [OF cu, THEN conjunct2, THEN mp, OF ru, THEN conjunct1, of None]
  have "formattedMessage None ?s = \<lparr>role = System, content = Parts []\<rparr>"
    unfolding s by (simp add: contentPart_def is_text_def imageContent_def textContent_def)
  moreover have "formattedMessage None ?a = \<lparr>role = Assistant, content = Parts [textContent ''seen'']\<rparr>"
    unfolding a by (simp add: contentPart_def is_text_def imageContent_def textContent_def)
  moreover have "formattedMessage None ?u = ?u"
    unfolding u by (simp add: contentPart_def is_text_def imageContent_def textContent_def)
  ultimately show ?thesis by simp
qed



text \<open>
  Claim C6. For a message whose content is an array of parts, the image of the options
  has no effect: the formatted message is the one obtained with no image at all, and no
  warning is written.
\<close>

theorem array_content_ignores_image:
  assumes "content m = Parts ps"
  shows "formattedMessage img m = formattedMessage None m \<and> formatWarnings img m = []"
  using assms by (simp add: formattedMessage_def formatWarnings_def)

theorem array_content_ignores_image_witness:
  "formattedMessage (Some (ImageString ''http://pec/captcha.png''))
     \<lparr>role = User, content = Parts [textContent ''read it'']\<rparr> =
   formattedMessage None \<lparr>role = User, content = Parts [textContent ''read it'']\<rparr>
   \<and> formattedMessage None \<lparr>role = User, content = Parts [textContent ''read it'']\<rparr> =
       \<lparr>role = User, content = Parts [textContent ''read it'']\<rparr>"
  using array_content_ignores_image [of "\<lparr>role = User, content = Parts [textContent ''read it'']\<rparr>"
      "[textContent ''read it'']" "Some (ImageString ''http://pec/captcha.png'')"]
  by (simp add: formattedMessage_def contentParts_def contentPart_def textContent_def)

text \<open>
  Claim C7. Formatting a message whose content is an array of parts is idempotent, for
  every role and whatever the image of the options is at either application: the
  classification of a part depends on its shape only, and a classified part (an image
  part, a text part, the empty text part of the fallback) classifies to itself.
\<close>

theorem array_content_idempotent:
  assumes "content m = Parts ps"
  shows "formattedMessage img' (formattedMessage img m) = formattedMessage img m
       \<and> (\<forall>c. contentPart (contentPart c) = contentPart c)"
  using assms
  by (cases m; cases "role m";
      simp add: formattedMessage_def contentParts_def contentPart_idem filter_map o_def
        is_text_contentPart)

theorem array_content_idempotent_witness:
  "formattedMessage None (formattedMessage None
     \<lparr>role = System,
      content = Parts [\<lparr>part_type = ''audio'', part_image_url = None, part_text = None\<rparr>,
                       imageContent ''http://pec/captcha.png'']\<rparr>) =
   \<lparr>role = System, content = Parts [textContent '''']\<rparr>"
  using array_content_idempotent [of "\<lparr>role = System,
      content = Parts [\<lparr>part_type = ''audio'', part_image_url = None, part_text = None\<rparr>,
                       imageContent ''http://pec/captcha.png'']\<rparr>"
      "[\<lparr>part_type = ''audio'', part_image_url = None, part_text = None\<rparr>,
        imageContent ''http://pec/captcha.png'']" None None]
  by (simp add: formattedMessage_def contentParts_def contentPart_def textContent_def
      imageContent_def fallbackContent_def is_text_def)

subsection \<open>Sending, validating, trying again\<close>

text \<open>
  Claim C1, as amended. When a response model is asked for and the first choice of the
  response carries a non-empty payload, a payload that \<^verbatim>\<open>JSON.parse\<close> rejects is not
  handled like a validation failure: the call fails at once with the \<^verbatim>\<open>SyntaxError\<close>
  of the parser, after this one request and whatever retries are left. Only a payload
  that parses and that the schema rejects is sent again, with one retry less and the
  same options, when retries are left, and fails with \<^verbatim>\<open>Invalid response schema\<close>
  when none is.
\<close>

theorem parse_failure_not_retried:
  assumes "response_model (options args) = Some rm"
    and "create this (requestBody (modelName this) (options args)) (world st) = (Inr response, w)"
    and "choices response = choice # others"
    and "message_content choice = Some payload" and "payload \<noteq> []"
  shows "(P payload = None \<longrightarrow>
            (\<forall>r. createChatCompletion P this (args\<lparr>retries := r\<rparr>) st =
                   (Inl SyntaxError, received this args response w st)))
       \<and> (\<forall>parsedData. P payload = Some parsedData
              \<and> \<not> validateZodSchema (rm_schema rm) parsedData \<longrightarrow>
            createChatCompletion P this args st =
              (if 0 < budget args then
                 createChatCompletion P this (args\<lparr>retries := Some (budget args - 1)\<rparr>)
                   (received this args response w st)
               else (Inl InvalidSchema, received this args response w st)))
       \<and> dispatched (trace (received this args response w st)) =
           dispatched (trace st) @ [requestBody (modelName this) (options args)]"
proof -
  have "createChatCompletion P this (args\<lparr>retries := r\<rparr>) st =
          (Inl SyntaxError, received this args response w st)" if "P payload = None" for r
  proof -
    have "create this (requestBody (modelName this) (options (args\<lparr>retries := r\<rparr>))) (world st)
            = (Inr response, w)"
      using assms(2) by simp
    from cc_answered [OF this, of P] assms(1,3,4,5) that show ?thesis
      by (simp add: Let_def)
  qed
  moreover have "createChatCompletion P this args st =
      (if 0 < budget args then
         createChatCompletion P this (args\<lparr>retries := Some (budget args - 1)\<rparr>)
           (received this args response w st)
       else (Inl InvalidSchema, received this args response w st))"
    if "P payload = Some parsedData" and "\<not> validateZodSchema (rm_schema rm) parsedData"
    for parsedData
    using cc_invalid [where P = P and payload = payload, OF assms(2,1,3,4,5) that] .
  ultimately show ?thesis
    by (simp add: dispatched_received)
qed

theorem parse_failure_not_retried_witness:
  \<open>createChatCompletion json_read gpt (call bool_options (Some 1))
      (start [reply (Some ''not json''), reply (Some ''{"isLoggedIn": false}'')]) =
     (Inl SyntaxError,
      received gpt (call bool_options None) (reply (Some ''not json''))
        [reply (Some ''{"isLoggedIn": false}'')]
        (start [reply (Some ''not json''), reply (Some ''{"isLoggedIn": false}'')]))
   \<and> createChatCompletion json_read gpt (call bool_options (Some 1))
      (start [reply (Some ''{}''), reply (Some ''{"isLoggedIn": false}'')]) =
     createChatCompletion json_read gpt (call bool_options (Some 0))
       (received gpt (call bool_options (Some 1)) (reply (Some ''{}''))
          [reply (Some ''{"isLoggedIn": false}'')]
          (start [reply (Some ''{}''), reply (Some ''{"isLoggedIn": false}'')]))\<close>
proof -
  have n: "json_read ''not json'' = None" and e: "json_read ''{}'' = Some (JObject [])"
    by (simp_all add: json_read_def is_ws_def)
  have v: "\<not> validateZodSchema isLoggedIn_schema (JObject [])"
    by (simp add: validateZodSchema_def isLoggedIn_schema_def)
  have a: \<open>createChatCompletion json_read gpt ((call bool_options None)\<lparr>retries := Some 1\<rparr>)
      (start [reply (Some ''not json''), reply (Some ''{"isLoggedIn": false}'')]) =
     (Inl SyntaxError,
      received gpt (call bool_options None) (reply (Some ''not json''))
        [reply (Some ''{"isLoggedIn": false}'')]
        (start [reply (Some ''not json''), reply (Some ''{"isLoggedIn": false}'')]))\<close>
    using n parse_failure_not_retried
      [where args = "call bool_options None" and this = gpt and P = json_read
         and rm = "\<lparr>rm_name = ''Bool'', rm_schema = isLoggedIn_schema\<rparr>"
         and st = \<open>start [reply (Some ''not json''), reply (Some ''{"isLoggedIn": false}'')]\<close>
         and response = "reply (Some ''not json'')"
         and w = \<open>[reply (Some ''{"isLoggedIn": false}'')]\<close>
         and choice = "\<lparr>message_content = Some ''not json''\<rparr>" and others = "[]"
         and payload = "''not json''"]
    by (simp add: call_def bool_options_def gpt_def scripted_def start_def reply_def)
  have b: \<open>createChatCompletion json_read gpt (call bool_options (Some 1))
      (start [reply (Some ''{}''), reply (Some ''{"isLoggedIn": false}'')]) =
     createChatCompletion json_read gpt ((call bool_options (Some 1))\<lparr>retries := Some 0\<rparr>)
       (received gpt (call bool_options (Some 1)) (reply (Some ''{}''))
          [reply (Some ''{"isLoggedIn": false}'')]
          (start [reply (Some ''{}''), reply (Some ''{"isLoggedIn": false}'')]))\<close>
    using e v parse_failure_not_retried
      [where args = "call bool_options (Some 1)" and this = gpt and P = json_read
         and rm = "\<lparr>rm_name = ''Bool'', rm_schema = isLoggedIn_schema\<rparr>"
         and st = \<open>start [reply (Some ''{}''), reply (Some ''{"isLoggedIn": false}'')]\<close>
         and response = "reply (Some ''{}'')"
         and w = \<open>[reply (Some ''{"isLoggedIn": false}'')]\<close>
         and choice = "\<lparr>message_content = Some ''{}''\<rparr>" and others = "[]"
         and payload = "''{}''"]
    by (simp add: call_def bool_options_def gpt_def scripted_def start_def reply_def budget_def)
  from a b show ?thesis
    by (simp add: call_def)
qed

text \<open>
  The scenario of the specification as the code runs it: with one retry left and the
  payload \<^verbatim>\<open>not json\<close> on the first attempt, the parser rejects the payload, the call
  fails with the \<^verbatim>\<open>SyntaxError\<close>, one request has been sent and the second response
  of the provider is still waiting.
\<close>

theorem parse_failure_scenario_counterexample:
  \<open>json_read ''not json'' = None
   \<and> fst (createChatCompletion json_read gpt (call bool_options (Some 1))
        (start [reply (Some ''not json''), reply (Some ''{"isLoggedIn": false}'')])) =
       Inl SyntaxError
   \<and> length (dispatched (trace (snd (createChatCompletion json_read gpt
        (call bool_options (Some 1))
        (start [reply (Some ''not json''), reply (Some ''{"isLoggedIn": false}'')]))))) = 1
   \<and> world (snd (createChatCompletion json_read gpt (call bool_options (Some 1))
        (start [reply (Some ''not json''), reply (Some ''{"isLoggedIn": false}'')]))) =
       [reply (Some ''{"isLoggedIn": false}'')]\<close>
  by (simp add: createChatCompletion.simps Let_def gpt_def call_def bool_options_def start_def
      reply_def dispatch_def scripted_def warn_all_def log_with_def json_read_def is_ws_def
      dispatched_append dispatched_Warned)

text \<open>
  Claim C2. With a response model asked for, \<open>N \<ge> 0\<close> retries, and a provider whose
  every payload parses and fails the schema, the call ends with
  \<^verbatim>\<open>Invalid response schema\<close> after exactly \<open>N + 1\<close> requests, all with the same body,
  the one built from the original options. While retries are left, the call is the
  same as calling the method again with \<open>N - 1\<close> retries and the unchanged options, in
  the state in which the response has been logged.
\<close>

theorem retry_bound:
  assumes "response_model (options args) = Some rm"
    and "never_validates P (rm_schema rm) this"
    and "retries args = Some N" and "0 \<le> N"
  shows "fst (createChatCompletion P this args st) = Inl InvalidSchema
       \<and> dispatched (trace (snd (createChatCompletion P this args st))) =
           dispatched (trace st)
           @ replicate (nat N + 1) (requestBody (modelName this) (options args))
       \<and> length (dispatched (trace (snd (createChatCompletion P this args st)))) =
           length (dispatched (trace st)) + nat N + 1
       \<and> (0 < N \<longrightarrow>
            (\<exists>response w. create this (requestBody (modelName this) (options args)) (world st)
                             = (Inr response, w)
               \<and> createChatCompletion P this args st =
                   createChatCompletion P this (args\<lparr>retries := Some (N - 1)\<rparr>)
                     (received this args response w st)))"
proof -
  have b: "budget args = N" using assms(3) by (simp add: budget_def)
  from assms(2)
  obtain response w choice others payload parsedData where
    a: "create this (requestBody (modelName this) (options args)) (world st) = (Inr response, w)"
      "choices response = choice # others" "message_content choice = Some payload"
      "payload \<noteq> []" "P payload = Some parsedData"
      "\<not> validateZodSchema (rm_schema rm) parsedData"
    unfolding never_validates_def by metis
  have "0 < N \<longrightarrow> createChatCompletion P this args st =
                   createChatCompletion P this (args\<lparr>retries := Some (N - 1)\<rparr>)
                     (received this args response w st)"
    using cc_invalid [where P = P and payload = payload, OF a(1) assms(1) a(2-)] b by simp
  with a(1) never_validates_run [OF assms(1,2), of st] b show ?thesis
    by auto
qed

theorem retry_bound_witness:
  "fst (createChatCompletion json_read \<lparr>modelName = ''gpt-4o'', create = insisting ''{}''\<rparr>
         (call bool_options (Some 2)) \<lparr>world = 0, sink = [], trace = []\<rparr>) = Inl InvalidSchema
   \<and> dispatched (trace (snd (createChatCompletion json_read
         \<lparr>modelName = ''gpt-4o'', create = insisting ''{}''\<rparr>
         (call bool_options (Some 2)) \<lparr>world = 0, sink = [], trace = []\<rparr>))) =
       [requestBody ''gpt-4o'' bool_options, requestBody ''gpt-4o'' bool_options,
        requestBody ''gpt-4o'' bool_options]"
proof -
  have "json_read ''{}'' = Some (JObject [])"
    by (simp add: json_read_def is_ws_def)
  then have nv: "never_validates json_read
      (rm_schema \<lparr>rm_name = ''Bool'', rm_schema = isLoggedIn_schema\<rparr>)
      \<lparr>modelName = ''gpt-4o'', create = insisting ''{}''\<rparr>"
    by (simp add: never_validates_def insisting_def reply_def validateZodSchema_def
        isLoggedIn_schema_def)
  have rm: "response_model (options (call bool_options (Some 2))) =
      Some \<lparr>rm_name = ''Bool'', rm_schema = isLoggedIn_schema\<rparr>"
    and r: "retries (call bool_options (Some 2)) = Some 2" and n: "(0::int) \<le> 2"
    by (simp_all add: call_def bool_options_def)
  from retry_bound [where P = json_read and st = "\<lparr>world = 0, sink = [], trace = []\<rparr>",
      OF rm nv r n]
  show ?thesis
    by (simp add: numeral_3_eq_3 call_def)
qed

text \<open>
  Claim C3. With a response model asked for and a response whose first choice has no
  payload (null or the empty string), the call fails with \<^verbatim>\<open>No content in response\<close>
  after this one request, and does so for every value of the retries, which it neither
  reads nor changes: the outcome and the final state are the same for all of them.
\<close>

theorem empty_payload_fails_at_once:
  assumes "response_model (options args) = Some rm"
    and "create this (requestBody (modelName this) (options args)) (world st) = (Inr response, w)"
    and "choices response = choice # others"
    and "message_content choice = None \<or> message_content choice = Some []"
  shows "createChatCompletion P this (args\<lparr>retries := r\<rparr>) st =
           (Inl EmptyResponse, received this args response w st)
       \<and> dispatched (trace (received this args response w st)) =
           dispatched (trace st) @ [requestBody (modelName this) (options args)]
       \<and> world (received this args response w st) = w"
proof -
  have "create this (requestBody (modelName this) (options (args\<lparr>retries := r\<rparr>))) (world st)
          = (Inr response, w)"
    using assms(2) by simp
  from cc_answered [OF this, of P] assms(1,3,4)
  have "createChatCompletion P this (args\<lparr>retries := r\<rparr>) st =
          (Inl EmptyResponse, received this (args\<lparr>retries := r\<rparr>) response w st)"
    by (auto simp: Let_def)
  then show ?thesis
    by (simp add: dispatched_received world_received)
qed

theorem empty_payload_fails_at_once_witness:
  \<open>fst (createChatCompletion json_read gpt (call bool_options (Some 5))
         (start [reply None, reply (Some ''{"isLoggedIn": true}'')])) = Inl EmptyResponse
   \<and> fst (createChatCompletion json_read gpt (call bool_options (Some 5))
         (start [reply (Some ''''), reply (Some ''{"isLoggedIn": true}'')])) = Inl EmptyResponse
   \<and> dispatched (trace (snd (createChatCompletion json_read gpt (call bool_options (Some 5))
         (start [reply None, reply (Some ''{"isLoggedIn": true}'')])))) =
       [requestBody ''gpt-4o'' bool_options]
   \<and> world (snd (createChatCompletion json_read gpt (call bool_options (Some 5))
         (start [reply None, reply (Some ''{"isLoggedIn": true}'')]))) =
       [reply (Some ''{"isLoggedIn": true}'')]\<close>
  using
    empty_payload_fails_at_once
      [where args = "call bool_options None" and this = gpt and P = json_read
         and rm = "\<lparr>rm_name = ''Bool'', rm_schema = isLoggedIn_schema\<rparr>"
         and st = \<open>start [reply None, reply (Some ''{"isLoggedIn": true}'')]\<close>
         and response = "reply None"
         and w = \<open>[reply (Some ''{"isLoggedIn": true}'')]\<close>
         and choice = "\<lparr>message_content = None\<rparr>" and others = "[]" and r = "Some 5"]
    empty_payload_fails_at_once
      [where args = "call bool_options None" and this = gpt and P = json_read
         and rm = "\<lparr>rm_name = ''Bool'', rm_schema = isLoggedIn_schema\<rparr>"
         and st = \<open>start [reply (Some ''''), reply (Some ''{"isLoggedIn": true}'')]\<close>
         and response = "reply (Some '''')"
         and w = \<open>[reply (Some ''{"isLoggedIn": true}'')]\<close>
         and choice = "\<lparr>message_content = Some ''''\<rparr>" and others = "[]" and r = "Some 5"]
  by (simp add: call_def bool_options_def gpt_def scripted_def start_def reply_def)

text \<open>
  Claim C8, as amended. Every call of the method gives the logger three lines, not two:
  the options with the model name and then the options as sent, both before the request
  (with nothing in between but the warnings of formatting), and the response right
  after it has arrived; a call whose request is rejected ends with the first two. So
  over a whole call the logger is invoked three times for each request sent, less one
  when the call ends rejected. The sink of the caller is the fold of the logger over
  these lines and nothing else, and neither the logger nor its sink has any effect on
  the outcome, on the provider or on what is sent and logged. The logger is a function
  here: it returns and does not throw.
\<close>

theorem logger_three_lines:
  fixes st :: "('w, 's) state"
  shows "\<exists>tr rest.
      trace (snd (createChatCompletion P this args st)) = trace st @ tr
    \<and> tr = [Logged (logOptions (modelName this) (options args)),
             Logged (logOpenaiOptions (modelName this) (options args))]
           @ map Warned (concat (map (formatWarnings (image_opt (options args)))
                                  (messages (options args))))
           @ [Dispatched (requestBody (modelName this) (options args))]
           @ rest
    \<and> (case fst (create this (requestBody (modelName this) (options args)) (world st)) of
          Inl e \<Rightarrow> rest = []
        | Inr response \<Rightarrow> \<exists>rest'. rest = Logged (logResponse response (options args)) # rest')
    \<and> length (logged_lines tr)
        + (case fst (createChatCompletion P this args st) of Inl (Rejected e) \<Rightarrow> 1 | _ \<Rightarrow> 0)
        = 3 * length (dispatched tr)
    \<and> sink (snd (createChatCompletion P this args st)) =
        foldl (\<lambda>s l. logger args l s) (sink st) (logged_lines tr)
    \<and> (\<forall>lg s.
          fst (createChatCompletion P this (args\<lparr>logger := lg\<rparr>) (st\<lparr>sink := s\<rparr>)) =
            fst (createChatCompletion P this args st)
        \<and> world (snd (createChatCompletion P this (args\<lparr>logger := lg\<rparr>) (st\<lparr>sink := s\<rparr>))) =
            world (snd (createChatCompletion P this args st))
        \<and> trace (snd (createChatCompletion P this (args\<lparr>logger := lg\<rparr>) (st\<lparr>sink := s\<rparr>))) =
            trace (snd (createChatCompletion P this args st)))"
proof -
  from trace_shape [where P = P and this = this and args = args and st = st] obtain tr rest where
    "trace (snd (createChatCompletion P this args st)) = trace st @ tr"
    "tr = request_events this args @ rest"
    "case fst (create this (requestBody (modelName this) (options args)) (world st)) of
       Inl e \<Rightarrow> rest = []
     | Inr response \<Rightarrow> \<exists>rest'. rest = Logged (logResponse response (options args)) # rest'"
    "length (logged_lines tr)
        + (case fst (createChatCompletion P this args st) of Inl (Rejected e) \<Rightarrow> 1 | _ \<Rightarrow> 0)
        = 3 * length (dispatched tr)"
    "sink (snd (createChatCompletion P this args st)) =
        foldl (\<lambda>s l. logger args l s) (sink st) (logged_lines tr)"
    by blast
  with logger_independent [where P = P and this = this and args = args and st = st]
  show ?thesis
    unfolding request_events_def
    by (intro exI [of _ tr] exI [of _ rest]) simp
qed

theorem logger_three_lines_witness:
  "sink (snd (createChatCompletion json_read gpt (call text_options None)
       (start [reply (Some ''ok'')]))) =
     [logOptions ''gpt-4o'' text_options, logOpenaiOptions ''gpt-4o'' text_options,
      logResponse (reply (Some ''ok'')) text_options]
   \<and> fst (createChatCompletion json_read gpt
            ((call text_options None)\<lparr>logger := \<lambda>l s. []\<rparr>)
            ((start [reply (Some ''ok'')])\<lparr>sink := [logResponse (reply None) text_options]\<rparr>)) =
       fst (createChatCompletion json_read gpt (call text_options None)
            (start [reply (Some ''ok'')]))"
proof -
  from logger_three_lines [where P = json_read and this = gpt
      and args = "call text_options None" and st = "start [reply (Some ''ok'')]"]
  obtain tr where
    t: "trace (snd (createChatCompletion json_read gpt (call text_options None)
          (start [reply (Some ''ok'')]))) = trace (start [reply (Some ''ok'')]) @ tr"
    and s: "sink (snd (createChatCompletion json_read gpt (call text_options None)
          (start [reply (Some ''ok'')]))) =
        foldl (\<lambda>s l. logger (call text_options None) l s) (sink (start [reply (Some ''ok'')]))
          (logged_lines tr)"
    and i: "\<forall>lg s.
          fst (createChatCompletion json_read gpt ((call text_options None)\<lparr>logger := lg\<rparr>)
                 ((start [reply (Some ''ok'')])\<lparr>sink := s\<rparr>)) =
            fst (createChatCompletion json_read gpt (call text_options None)
                 (start [reply (Some ''ok'')]))"
    by blast
  have "trace (snd (createChatCompletion json_read gpt (call text_options None)
          (start [reply (Some ''ok'')]))) =
      [Logged (logOptions ''gpt-4o'' text_options),
       Logged (logOpenaiOptions ''gpt-4o'' text_options),
       Dispatched (requestBody ''gpt-4o'' text_options),
       Logged (logResponse (reply (Some ''ok'')) text_options)]"
    by (simp add: createChatCompletion.simps Let_def gpt_def call_def start_def reply_def
        dispatch_def scripted_def warn_all_def log_with_def text_options_def bool_options_def
        formatWarnings_def ask_def)
  with t have "logged_lines tr =
      [logOptions ''gpt-4o'' text_options, logOpenaiOptions ''gpt-4o'' text_options,
       logResponse (reply (Some ''ok'')) text_options]"
    by (simp add: start_def)
  with s i show ?thesis
    by (simp add: call_def start_def keep_line_def)
qed

text \<open>
  One call with no response model and one answer: one request is sent and the logger
  has been invoked three times, twice before the request and once after it.
\<close>

theorem logger_twice_counterexample:
  "length (dispatched (trace (snd (createChatCompletion json_read gpt (call text_options None)
       (start [reply (Some ''ok'')]))))) = 1
   \<and> length (sink (snd (createChatCompletion json_read gpt (call text_options None)
       (start [reply (Some ''ok'')])))) = 3
   \<and> trace (snd (createChatCompletion json_read gpt (call text_options None)
       (start [reply (Some ''ok'')]))) =
      [Logged (logOptions ''gpt-4o'' text_options),
       Logged (logOpenaiOptions ''gpt-4o'' text_options),
       Dispatched (requestBody ''gpt-4o'' text_options),
       Logged (logResponse (reply (Some ''ok'')) text_options)]"
  by (simp add: createChatCompletion.simps Let_def gpt_def call_def start_def reply_def
      dispatch_def scripted_def warn_all_def log_with_def text_options_def bool_options_def
      formatWarnings_def ask_def keep_line_def)

text \<open>
  Claim C9. With no response model asked for, the call never fails with
  \<^verbatim>\<open>No content in response\<close>. When the provider answers with a response that has a
  first choice, the call returns after this one request, whatever the retries are; the
  data is the content of that choice as it is, so null for a null content, and each
  usage counter that the response leaves out is 0.
\<close>

theorem no_schema_returns_payload:
  assumes "response_model (options args) = None"
  shows "fst (createChatCompletion P this args st) \<noteq> Inl EmptyResponse
       \<and> (\<forall>response w choice others.
            create this (requestBody (modelName this) (options args)) (world st) = (Inr response, w)
            \<and> choices response = choice # others \<longrightarrow>
              createChatCompletion P this args st =
                (Inr \<lparr>data = (case message_content choice of None \<Rightarrow> JNull | Some t \<Rightarrow> JString t),
                      usage = usageOf response\<rparr>,
                 received this args response w st)
            \<and> (message_content choice = None \<longrightarrow>
                  data (projr (fst (createChatCompletion P this args st))) = JNull)
            \<and> dispatched (trace (received this args response w st)) =
                dispatched (trace st) @ [requestBody (modelName this) (options args)]
            \<and> (completion_usage response = None \<longrightarrow>
                  usageOf response = \<lparr>prompt_tokens = 0, completion_tokens = 0, total_tokens = 0\<rparr>)
            \<and> (\<forall>u. completion_usage response = Some u \<longrightarrow>
                  (prompt_tokens u = None \<longrightarrow> prompt_tokens (usageOf response) = 0)
                \<and> (completion_tokens u = None \<longrightarrow> completion_tokens (usageOf response) = 0)
                \<and> (total_tokens u = None \<longrightarrow> total_tokens (usageOf response) = 0)
                \<and> (\<forall>n. prompt_tokens u = Some n \<longrightarrow> prompt_tokens (usageOf response) = n)
                \<and> (\<forall>n. completion_tokens u = Some n \<longrightarrow> completion_tokens (usageOf response) = n)
                \<and> (\<forall>n. total_tokens u = Some n \<longrightarrow> total_tokens (usageOf response) = n)))"
proof -
  have never: "fst (createChatCompletion P this args st) \<noteq> Inl EmptyResponse"
  proof (cases "create this (requestBody (modelName this) (options args)) (world st)")
    case (Pair outcome w)
    show ?thesis
    proof (cases outcome)
      case (Inl e)
      with Pair cc_rejected [of this args st e w P] show ?thesis by simp
    next
      case (Inr response)
      with Pair cc_answered [of this args st response w P] assms show ?thesis
        by (simp add: Let_def split: list.splits)
    qed
  qed
  have answered: "createChatCompletion P this args st =
      (Inr \<lparr>data = (case message_content choice of None \<Rightarrow> JNull | Some t \<Rightarrow> JString t),
            usage = usageOf response\<rparr>,
       received this args response w st)"
    if "create this (requestBody (modelName this) (options args)) (world st) = (Inr response, w)"
      and "choices response = choice # others" for response w choice others
    using cc_answered [OF that(1), of P] that(2) assms by (simp add: Let_def)
  have counters: "(completion_usage response = None \<longrightarrow>
        usageOf response = \<lparr>prompt_tokens = 0, completion_tokens = 0, total_tokens = 0\<rparr>)
      \<and> (\<forall>u. completion_usage response = Some u \<longrightarrow>
            (prompt_tokens u = None \<longrightarrow> prompt_tokens (usageOf response) = 0)
          \<and> (completion_tokens u = None \<longrightarrow> completion_tokens (usageOf response) = 0)
          \<and> (total_tokens u = None \<longrightarrow> total_tokens (usageOf response) = 0)
          \<and> (\<forall>n. prompt_tokens u = Some n \<longrightarrow> prompt_tokens (usageOf response) = n)
          \<and> (\<forall>n. completion_tokens u = Some n \<longrightarrow> completion_tokens (usageOf response) = n)
          \<and> (\<forall>n. total_tokens u = Some n \<longrightarrow> total_tokens (usageOf response) = n))"
    for response
    by (simp add: usageOf_def)
  show ?thesis
  proof (intro conjI allI impI, goal_cases)
    case 1
    show ?case by (rule never)
  next
    case (2 response w choice others)
    then show ?case using answered by blast
  next
    case (3 response w choice others)
    then show ?case using answered [of response w choice others] by simp
  next
    case (4 response w choice others)
    show ?case by (rule dispatched_received)
  qed (use counters in blast)+
qed

theorem no_schema_returns_payload_witness:
  "createChatCompletion json_read gpt (call text_options (Some 3))
       (start [\<lparr>choices = [\<lparr>message_content = None\<rparr>],
                completion_usage = Some \<lparr>prompt_tokens = Some 12, completion_tokens = None,
                                        total_tokens = None\<rparr>\<rparr>]) =
     (Inr \<lparr>data = JNull,
           usage = \<lparr>prompt_tokens = 12, completion_tokens = 0, total_tokens = 0\<rparr>\<rparr>,
      received gpt (call text_options (Some 3))
        \<lparr>choices = [\<lparr>message_content = None\<rparr>],
         completion_usage = Some \<lparr>prompt_tokens = Some 12, completion_tokens = None,
                                 total_tokens = None\<rparr>\<rparr>
        []
        (start [\<lparr>choices = [\<lparr>message_content = None\<rparr>],
                 completion_usage = Some \<lparr>prompt_tokens = Some 12, completion_tokens = None,
                                         total_tokens = None\<rparr>\<rparr>]))"
proof -
  let ?r = "\<lparr>choices = [\<lparr>message_content = None\<rparr>],
             completion_usage = Some \<lparr>prompt_tokens = Some (12::int), completion_tokens = None,
                                     total_tokens = None\<rparr>\<rparr>"
  have n: "response_model (options (call text_options (Some 3))) = None"
    by (simp add: call_def text_options_def bool_options_def)
  have c: "create gpt (requestBody (modelName gpt) (options (call text_options (Some 3))))
             (world (start [?r])) = (Inr ?r, [])
           \<and> choices ?r = \<lparr>message_content = None\<rparr> # []"
    by (simp add: gpt_def scripted_def start_def)
  from no_schema_returns_payload [OF n, of json_read gpt "start [?r]", THEN conjunct2,
      THEN spec, THEN spec, THEN spec, THEN spec, THEN mp, OF c, THEN conjunct1]
  show ?thesis
    by (simp add: usageOf_def)
qed

text \<open>
  Claim C10. Both paths read the content of the first choice of the response. A
  response with no choice makes the call fail with the \<^verbatim>\<open>TypeError\<close> of reading a
  property of \<^verbatim>\<open>undefined\<close>, with or without a response model, and this is none of
  \<^verbatim>\<open>No content in response\<close>, \<^verbatim>\<open>Invalid response schema\<close> and a rejection by the
  provider. When every response of the provider has at least one choice, the call never
  fails with that error.
\<close>

theorem first_choice_presupposed:
  fixes st :: "('w, 's) state" and this :: "('w, 'e) custom_openai_client"
  shows "(\<forall>response w.
            create this (requestBody (modelName this) (options args)) (world st) = (Inr response, w)
            \<and> choices response = [] \<longrightarrow>
              createChatCompletion P this args st =
                (Inl TypeError, received this args response w st))
       \<and> ((\<forall>b w response w'. create this b w = (Inr response, w') \<longrightarrow> choices response \<noteq> []) \<longrightarrow>
            fst (createChatCompletion P this args st) \<noteq> Inl TypeError)
       \<and> (TypeError :: 'e error) \<noteq> EmptyResponse
       \<and> (TypeError :: 'e error) \<noteq> InvalidSchema
       \<and> (\<forall>e :: 'e. TypeError \<noteq> TransportFailure e)"
proof -
  have none: "createChatCompletion P this args st =
      (Inl TypeError, received this args response w st)"
    if "create this (requestBody (modelName this) (options args)) (world st) = (Inr response, w)"
      and "choices response = []" for response w
    using cc_answered [OF that(1), of P] that(2) by (simp add: Let_def split: option.splits)
  have some: "fst (createChatCompletion P this args st) \<noteq> Inl TypeError"
    if all: "\<forall>b w response w'. create this b w = (Inr response, w') \<longrightarrow> choices response \<noteq> []"
  proof (induction args st rule: cc_less_induct)
    case (step args st)
    show ?case
    proof (cases rule: cc_kinds [of this args st P])
      case (rejected e w)
      then show ?thesis by simp
    next
      case (final response w res)
      with all show ?thesis by auto
    next
      case (retry response w)
      with step [of "args\<lparr>retries := Some (budget args - 1)\<rparr>"] show ?thesis by simp
    qed
  qed
  from none some show ?thesis
    by blast
qed

theorem first_choice_presupposed_witness:
  "fst (createChatCompletion json_read gpt (call bool_options (Some 3))
         (start [\<lparr>choices = [], completion_usage = None\<rparr>])) = Inl TypeError
   \<and> fst (createChatCompletion json_read gpt (call text_options (Some 3))
         (start [\<lparr>choices = [], completion_usage = None\<rparr>])) = Inl TypeError
   \<and> fst (createChatCompletion json_read \<lparr>modelName = ''gpt-4o'', create = insisting ''{}''\<rparr>
         (call bool_options (Some 2)) \<lparr>world = 0, sink = [], trace = []\<rparr>) \<noteq> Inl TypeError"
proof -
  let ?r = "\<lparr>choices = [], completion_usage = None\<rparr>"
  have b: "create gpt (requestBody (modelName gpt) (options (call bool_options (Some 3))))
             (world (start [?r])) = (Inr ?r, []) \<and> choices ?r = []"
    and t: "create gpt (requestBody (modelName gpt) (options (call text_options (Some 3))))
             (world (start [?r])) = (Inr ?r, []) \<and> choices ?r = []"
    by (simp_all add: gpt_def scripted_def start_def)
  have i: "\<forall>b w response w'.
      create \<lparr>modelName = ''gpt-4o'', create = insisting ''{}''\<rparr> b w = (Inr response, w') \<longrightarrow>
      choices response \<noteq> []"
    by (auto simp: insisting_def reply_def)
  note one = first_choice_presupposed [where P = json_read and this = gpt
      and args = "call bool_options (Some 3)" and st = "start [?r]",
      THEN conjunct1, THEN spec, THEN spec, THEN mp, OF b]
  note two = first_choice_presupposed [where P = json_read and this = gpt
      and args = "call text_options (Some 3)" and st = "start [?r]",
      THEN conjunct1, THEN spec, THEN spec, THEN mp, OF t]
  note three = first_choice_presupposed [where P = json_read
      and this = "\<lparr>modelName = ''gpt-4o'', create = insisting ''{}''\<rparr>"
      and args = "call bool_options (Some 2)" and st = "\<lparr>world = 0, sink = [], trace = []\<rparr>",
      THEN conjunct2, THEN conjunct1, THEN mp, OF i]
  from one two three show ?thesis
    by simp
qed

end
